theory Spec2Isabelle
  imports Main
begin

section \<open>JavaScript values and strings used by ReactionManager.js\<close>

text \<open>
  Strings are lists of code units below 256 (ASCII and Latin-1). The platform functions
  the source calls on them (\<open>trim\<close>, \<open>toLowerCase\<close>, \<open>replaceAll\<close>, \<open>indexOf\<close>,
  \<open>startsWith\<close>, \<open>endsWith\<close>, \<open>substr\<close>, \<open>split\<close>) are written out for that
  range.
\<close>

datatype jsval = JUndefined | JNull | JBool bool | JNum int | JStr string

datatype error = SyntaxError | DatabaseError

definition isWhiteSpace :: "char \<Rightarrow> bool" where
  "isWhiteSpace c = (of_char c \<in> {9::nat, 10, 11, 12, 13, 32, 160})"

definition trim :: "string \<Rightarrow> string" where
  "trim s = rev (dropWhile isWhiteSpace (rev (dropWhile isWhiteSpace s)))"

definition toLowerChar :: "char \<Rightarrow> char" where
  "toLowerChar c =
     (let n = (of_char c :: nat)
      in if 65 \<le> n \<and> n \<le> 90 then char_of (n + 32)
         else if n = 215 then c
         else if 192 \<le> n \<and> n \<le> 222 then char_of (n + 32)
         else c)"

definition toLowerCase :: "string \<Rightarrow> string" where
  "toLowerCase s = map toLowerChar s"

text \<open>\<open>s.replaceAll(c, "")\<close> for a one-character pattern \<open>c\<close>.\<close>

definition replaceAllEmpty :: "char \<Rightarrow> string \<Rightarrow> string" where
  "replaceAllEmpty c s = filter (\<lambda>x. x \<noteq> c) s"

definition startsWith :: "string \<Rightarrow> string \<Rightarrow> bool" where
  "startsWith s p = (take (length p) s = p)"

definition endsWith :: "string \<Rightarrow> string \<Rightarrow> bool" where
  "endsWith s p = (length p \<le> length s \<and> drop (length s - length p) s = p)"

text \<open>\<open>s.indexOf(t)\<close>: the first position where \<open>t\<close> occurs in \<open>s\<close>, or \<open>-1\<close>.\<close>

fun indexOfFrom :: "nat \<Rightarrow> string \<Rightarrow> string \<Rightarrow> int" where
  "indexOfFrom i [] t = (if t = [] then int i else - 1)"
| "indexOfFrom i (c # cs) t =
     (if startsWith (c # cs) t then int i else indexOfFrom (Suc i) cs t)"

definition indexOf :: "string \<Rightarrow> string \<Rightarrow> int" where
  "indexOf s t = indexOfFrom 0 s t"

text \<open>\<open>s.substr(start, len)\<close> with a possibly negative length, which yields \<open>""\<close>.\<close>

definition substr :: "string \<Rightarrow> nat \<Rightarrow> int \<Rightarrow> string" where
  "substr s start len = (if len \<le> 0 then [] else take (nat len) (drop start s))"

text \<open>\<open>s.split(c)\<close> for a one-character separator.\<close>

fun split :: "char \<Rightarrow> string \<Rightarrow> string list" where
  "split c [] = [[]]"
| "split c (x # xs) =
     (if x = c then [] # split c xs
      else (case split c xs of [] \<Rightarrow> [[x]] | w # ws \<Rightarrow> (x # w) # ws))"

subsection \<open>parseInt\<close>

text \<open>
  A number that \<open>parseInt\<close> returns: \<open>NaN\<close>, an integer, or an infinity (the value
  of a digit string too long for a double). Negative zero is \<open>Finite 0\<close>: it is falsy
  and prints as \<open>0\<close>, as zero does.
\<close>

datatype jsnum = NaN | Finite int | PosInfinity | NegInfinity

text \<open>
  \<open>parseInt\<close> is the platform's. What it returns on a number goes through the
  number's printed form, and on a long digit string through rounding to a double that
  the engine may approximate, so the handlers take it as a parameter, as they take the
  regular-expression engine and the database.
\<close>

type_synonym parse_int = "jsval \<Rightarrow> jsnum"

text \<open>A number is falsy when it is \<open>NaN\<close> or zero.\<close>

fun isTruthy :: "jsnum \<Rightarrow> bool" where
  "isTruthy NaN = False"
| "isTruthy (Finite n) = (n \<noteq> 0)"
| "isTruthy PosInfinity = True"
| "isTruthy NegInfinity = True"

text \<open>\<open>x > 0\<close> on a number.\<close>

fun greaterThanZero :: "jsnum \<Rightarrow> bool" where
  "greaterThanZero NaN = False"
| "greaterThanZero (Finite n) = (n > 0)"
| "greaterThanZero PosInfinity = True"
| "greaterThanZero NegInfinity = False"

text \<open>\<open>parseInt(v) || null\<close>: a falsy result becomes \<open>null\<close>.\<close>

definition parseIntOrNull :: "parse_int \<Rightarrow> jsval \<Rightarrow> jsnum option" where
  "parseIntOrNull parseInt v = (if isTruthy (parseInt v) then Some (parseInt v) else None)"

text \<open>\<open>parseInt(v) === 1 ? 1 : 0\<close>.\<close>

definition parseFlag :: "parse_int \<Rightarrow> jsval \<Rightarrow> int" where
  "parseFlag parseInt v = (if parseInt v = Finite 1 then 1 else 0)"

text \<open>\<open>s || null\<close> on an optional string: the empty string is falsy.\<close>

definition strOrNull :: "string option \<Rightarrow> string option" where
  "strOrNull s = (case s of None \<Rightarrow> None | Some x \<Rightarrow> if x = [] then None else Some x)"

section \<open>Reaction records and the in-memory store \<open>_data\<close>\<close>

text \<open>
  A reaction is the object written by \<open>_handleApiWriteReaction\<close> and the row read by
  \<open>reloadAll\<close>. \<open>None\<close> is \<open>null\<close>; the three flags are the integers the database
  holds, truthy when not zero.
\<close>

record reaction =
  id_field :: "jsnum option"
  type_field :: "string option"
  trigger :: "string option"
  must_mention :: int
  insensitive :: int
  response :: "string option"
  emote :: "string option"
  do_mention :: int

text \<open>
  \<open>_data\<close> is a plain object. Its property keys are the printed record ids: \<open>KInt n\<close>
  for the integer \<open>n\<close>, \<open>KNull\<close> for a \<open>null\<close> id, and a key each for \<open>NaN\<close> and
  the infinities. The list keeps the order in which the keys were created.
  \<open>Object.values\<close> lists the array-index keys (integers from \<open>0\<close> to \<open>2^32 - 2\<close>) in
  ascending order first and the other keys in creation order after them.
\<close>

datatype pkey = KInt int | KNull | KNaN | KInfinity | KNegInfinity

type_synonym store = "(pkey \<times> reaction) list"

fun keyOfNum :: "jsnum \<Rightarrow> pkey" where
  "keyOfNum (Finite n) = KInt n"
| "keyOfNum NaN = KNaN"
| "keyOfNum PosInfinity = KInfinity"
| "keyOfNum NegInfinity = KNegInfinity"

fun keyOfId :: "jsnum option \<Rightarrow> pkey" where
  "keyOfId (Some x) = keyOfNum x"
| "keyOfId None = KNull"

fun isArrayIndex :: "pkey \<Rightarrow> bool" where
  "isArrayIndex (KInt n) = (0 \<le> n \<and> n < 4294967295)"
| "isArrayIndex _ = False"

fun keyIndex :: "pkey \<Rightarrow> int" where
  "keyIndex (KInt n) = n"
| "keyIndex _ = 0"

definition lookup :: "store \<Rightarrow> pkey \<Rightarrow> reaction option" where
  "lookup d k = map_of d k"

fun store_set :: "pkey \<Rightarrow> reaction \<Rightarrow> store \<Rightarrow> store" where
  "store_set k v [] = [(k, v)]"
| "store_set k v ((k', v') # d) =
     (if k' = k then (k, v) # d else (k', v') # store_set k v d)"

definition store_delete :: "pkey \<Rightarrow> store \<Rightarrow> store" where
  "store_delete k d = filter (\<lambda>kv. fst kv \<noteq> k) d"

definition objectValues :: "store \<Rightarrow> reaction list" where
  "objectValues d =
     map snd (sort_key (\<lambda>kv. keyIndex (fst kv)) (filter (\<lambda>kv. isArrayIndex (fst kv)) d))
     @ map snd (filter (\<lambda>kv. \<not> isArrayIndex (fst kv)) d)"

section \<open>The matcher inside \<open>_handleDiscordMessage\<close>\<close>

text \<open>
  The regular-expression engine is the platform's, so it is a parameter: given the
  pattern source and the subject it says whether \<open>subject.match(new RegExp(pattern, "gm"))\<close>
  is not \<open>null\<close>, or that the constructor threw on a malformed pattern.
\<close>

type_synonym regexp_engine = "string \<Rightarrow> string \<Rightarrow> error + bool"

definition TYPE_KEYWORD :: string where "TYPE_KEYWORD = ''keyword''"
definition TYPE_TEXT :: string where "TYPE_TEXT = ''text''"
definition TYPE_MESSAGE :: string where "TYPE_MESSAGE = ''message''"

text \<open>The six \<open>replaceAll\<close> calls on \<open>chatNormal\<close>, in the source's order.\<close>

definition removePunctuation :: "string \<Rightarrow> string" where
  "removePunctuation s =
     replaceAllEmpty CHR ''.'' (replaceAllEmpty CHR '','' (replaceAllEmpty (CHR 0x22)
       (replaceAllEmpty (CHR 0x27) (replaceAllEmpty CHR ''?'' (replaceAllEmpty CHR ''!'' s)))))"

definition chatNormalOf :: "reaction \<Rightarrow> string \<Rightarrow> string" where
  "chatNormalOf reaction cleanText =
     (if insensitive reaction \<noteq> 0 then removePunctuation (toLowerCase cleanText) else cleanText)"

definition triggerNormalOf :: "reaction \<Rightarrow> string \<Rightarrow> string" where
  "triggerNormalOf reaction t = (if insensitive reaction \<noteq> 0 then toLowerCase t else t)"

text \<open>
  The callback given to \<open>filter\<close>: \<open>didMentionUs\<close> and \<open>cleanText\<close> are the variables
  it closes over.
\<close>

definition reactionMatches :: "regexp_engine \<Rightarrow> bool \<Rightarrow> string \<Rightarrow> reaction \<Rightarrow> error + bool" where
  "reactionMatches rx didMentionUs cleanText reaction =
     (case trigger reaction of
        None \<Rightarrow> Inr False
      | Some t \<Rightarrow>
          if t = [] then Inr False
          else if must_mention reaction \<noteq> 0 \<and> \<not> didMentionUs then Inr False
          else
            let chatNormal = chatNormalOf reaction cleanText;
                triggerNormal = triggerNormalOf reaction t
            in if type_field reaction = Some TYPE_KEYWORD
               then rx ([CHR 0x5C, CHR ''b''] @ triggerNormal @ [CHR 0x5C, CHR ''b'']) chatNormal
               else if type_field reaction = Some TYPE_MESSAGE
               then Inr (chatNormal = triggerNormal)
               else Inr (indexOf chatNormal triggerNormal \<ge> 0))"

text \<open>\<open>Array.prototype.filter\<close> with a callback that may throw: the first throw ends it.\<close>

fun filterE :: "('a \<Rightarrow> error + bool) \<Rightarrow> 'a list \<Rightarrow> error + 'a list" where
  "filterE p [] = Inr []"
| "filterE p (x # xs) =
     (case p x of
        Inl e \<Rightarrow> Inl e
      | Inr b \<Rightarrow>
          (case filterE p xs of
             Inl e \<Rightarrow> Inl e
           | Inr ys \<Rightarrow> Inr (if b then x # ys else ys)))"

section \<open>Delivery\<close>

record message =
  author_bot :: bool
  author_id :: string
  system :: bool
  cleanContent :: string
  channel_type :: string
  isMentioned :: bool

text \<open>The client's custom emotes, as pairs of name and id.\<close>

type_synonym emojis = "(string \<times> string) list"

datatype effect =
    React string
  | LogWarnUnresolved string
  | LogDebug string string
  | ChannelSend string

definition deliverEmote :: "emojis \<Rightarrow> string \<Rightarrow> effect list" where
  "deliverEmote es e =
     (if startsWith e '':'' \<and> endsWith e '':''
      then
        let emoteVal = substr e 1 (int (length e) - 2)
        in (case find (\<lambda>x. fst x = emoteVal) es of
              Some discordEmoji \<Rightarrow> [React (snd discordEmoji)]
            | None \<Rightarrow> [LogWarnUnresolved e])
      else [React e])"

definition deliverReaction :: "emojis \<Rightarrow> message \<Rightarrow> reaction \<Rightarrow> effect list" where
  "deliverReaction es msg reaction =
     (case emote reaction of
        None \<Rightarrow> []
      | Some e \<Rightarrow> if e = [] then [] else concat (map (deliverEmote es) (split CHR '' '' e)))
     @
     (case response reaction of
        None \<Rightarrow> []
      | Some r \<Rightarrow>
          if r = [] then []
          else
            let isDirectMessage = (channel_type msg = ''dm'');
                shouldMention = (\<not> isDirectMessage \<and> do_mention reaction \<noteq> 0);
                msgContent = (if shouldMention then ''<@'' @ author_id msg @ ''> '' @ r else r)
            in [LogDebug msgContent (cleanContent msg), ChannelSend msgContent])"

definition matchingReactions :: "regexp_engine \<Rightarrow> store \<Rightarrow> message \<Rightarrow> error + reaction list" where
  "matchingReactions rx d msg =
     (let cleanText = trim (cleanContent msg);
          isDirectMessage = (channel_type msg = ''dm'');
          didMentionUs = (isDirectMessage \<or> isMentioned msg)
      in filterE (reactionMatches rx didMentionUs cleanText) (objectValues d))"

definition handleDiscordMessage ::
  "regexp_engine \<Rightarrow> emojis \<Rightarrow> store \<Rightarrow> message \<Rightarrow> error + effect list" where
  "handleDiscordMessage rx es d msg =
     (if author_bot msg \<or> system msg then Inr []
      else if length (trim (cleanContent msg)) = 0 then Inr []
      else
        (case matchingReactions rx d msg of
           Inl e \<Rightarrow> Inl e
         | Inr rs \<Rightarrow> Inr (concat (map (deliverReaction es msg) rs))))"

section \<open>Administrative handlers and reload\<close>

text \<open>
  The payload of a write request. The text fields are optional strings; the id and the
  three flags arrive as any JSON scalar and go through \<open>parseInt\<close>.
\<close>

record write_data =
  id_in :: jsval
  type_in :: "string option"
  trigger_in :: "string option"
  must_mention_in :: jsval
  insensitive_in :: jsval
  response_in :: "string option"
  emote_in :: "string option"
  do_mention_in :: jsval

definition upsertData :: "parse_int \<Rightarrow> write_data \<Rightarrow> reaction" where
  "upsertData parseInt data =
     \<lparr> id_field = parseIntOrNull parseInt (id_in data),
       type_field = strOrNull (type_in data),
       trigger = strOrNull (trigger_in data),
       must_mention = parseFlag parseInt (must_mention_in data),
       insensitive = parseFlag parseInt (insensitive_in data),
       response = strOrNull (response_in data),
       emote = strOrNull (Some (trim (case emote_in data of None \<Rightarrow> [] | Some e \<Rightarrow> e))),
       do_mention = parseFlag parseInt (do_mention_in data) \<rparr>"

text \<open>
  \<open>Timbot.db.insertOrUpdate\<close> and \<open>Timbot.db.deleteIfExists\<close> belong to the host and
  are parameters: the first answers \<open>false\<close> or the row's key, the second says whether
  a row was removed. \<open>!upsertData.id\<close> holds for \<open>null\<close> and for a falsy number.
\<close>

fun isTruthyId :: "jsnum option \<Rightarrow> bool" where
  "isTruthyId None = False"
| "isTruthyId (Some x) = isTruthy x"

definition handleApiWriteReaction ::
  "parse_int \<Rightarrow> (reaction \<Rightarrow> jsval) \<Rightarrow> write_data \<Rightarrow> store \<Rightarrow> jsval \<times> store" where
  "handleApiWriteReaction parseInt insertOrUpdate data d =
     (let u = upsertData parseInt data;
          result = insertOrUpdate u
      in if result = JBool False then (JBool False, d)
         else
           let recordId = parseInt result;
               u' = (if \<not> isTruthyId (id_field u) \<and> isTruthy recordId
                     then u\<lparr>id_field := Some recordId\<rparr> else u)
           in (JUndefined, store_set (keyOfNum recordId) u' d))"

text \<open>What a handler does to the outside: a database delete, a frame sent to the requester.\<close>

datatype call = DbDeleteIfExists jsnum | WsSend string "reaction list"

definition API_OP_REACTIONS_FETCH :: string where
  "API_OP_REACTIONS_FETCH = ''reactions_fetch''"

definition handleApiReactionsFetch :: "store \<Rightarrow> call list" where
  "handleApiReactionsFetch d = [WsSend API_OP_REACTIONS_FETCH (objectValues d)]"

definition handleApiReactionDelete ::
  "parse_int \<Rightarrow> (jsnum \<Rightarrow> bool) \<Rightarrow> jsval \<Rightarrow> store \<Rightarrow> store \<times> call list" where
  "handleApiReactionDelete parseInt deleteIfExists data_id d =
     (case parseIntOrNull parseInt data_id of
        None \<Rightarrow> (d, [])
      | Some n \<Rightarrow>
          if greaterThanZero n
          then
            let d' = (if deleteIfExists n then store_delete (keyOfNum n) d else d)
            in (d', DbDeleteIfExists n # handleApiReactionsFetch d')
          else (d, []))"

text \<open>
  \<open>reloadAll\<close>: the query either throws or yields the rows. The function returns
  \<open>true\<close> or \<open>false\<close>.
\<close>

definition reloadAll :: "error + reaction list \<Rightarrow> store \<Rightarrow> jsval \<times> store" where
  "reloadAll allRows d =
     (case allRows of
        Inl e \<Rightarrow> (JBool False, d)
      | Inr rows \<Rightarrow>
          (JBool True, foldl (\<lambda>acc row. store_set (keyOfId (id_field row)) row acc) [] rows))"

section \<open>The normalisation as the specification words it\<close>

text \<open>
  The specification's matcher, step 2, lowercases both the message and the trigger and
  removes the characters \<open>! ? ' " , .\<close> from both when \<open>insensitive\<close> is set.
  \<open>spec_normalize\<close> is that one normalisation, to be compared with \<open>chatNormalOf\<close>
  and \<open>triggerNormalOf\<close>, which are what the source computes.
\<close>

definition spec_normalize :: "reaction \<Rightarrow> string \<Rightarrow> string" where
  "spec_normalize reaction s =
     (if insensitive reaction \<noteq> 0 then removePunctuation (toLowerCase s) else s)"

text \<open>
  The specification's write normalisation coerces the flags, which it calls booleans,
  to \<open>0\<close>/\<open>1\<close>. \<open>spec_coerce_boolean\<close> is that coercion, to be compared with
  \<open>parseFlag\<close>, which is what the source computes.
\<close>

definition spec_coerce_boolean :: "bool \<Rightarrow> int" where
  "spec_coerce_boolean b = (if b then 1 else 0)"

section \<open>Sample inputs\<close>

abbreviation mkReaction :: "int \<Rightarrow> string \<Rightarrow> string \<Rightarrow> int \<Rightarrow> int \<Rightarrow> reaction" where
  "mkReaction i ty tr mm ins \<equiv>
     \<lparr> id_field = Some (Finite i), type_field = Some ty, trigger = Some tr, must_mention = mm,
       insensitive = ins, response = Some ''ok'', emote = None, do_mention = 0 \<rparr>"

abbreviation mkMessage :: "string \<Rightarrow> string \<Rightarrow> bool \<Rightarrow> message" where
  "mkMessage txt chan ment \<equiv>
     \<lparr> author_bot = False, author_id = ''42'', system = False, cleanContent = txt,
       channel_type = chan, isMentioned = ment \<rparr>"

abbreviation mkWrite :: "jsval \<Rightarrow> string option \<Rightarrow> write_data" where
  "mkWrite i tr \<equiv>
     \<lparr> id_in = i, type_in = Some ''text'', trigger_in = tr, must_mention_in = JStr ''1'',
       insensitive_in = JBool True, response_in = Some ''ok'', emote_in = Some '' :tada: '',
       do_mention_in = JUndefined \<rparr>"

text \<open>
  A parse function for the examples: it answers as \<open>parseInt\<close> does on the strings
  \<open>"1"\<close>, \<open>"3"\<close>, \<open>"5"\<close> and \<open>"-5"\<close>, on the integers between \<open>-1000\<close> and
  \<open>1000\<close>, and on \<open>undefined\<close>, \<open>null\<close>, \<open>true\<close> and \<open>false\<close>, the only values
  the examples submit.
\<close>

abbreviation sampleParseInt :: parse_int where
  "sampleParseInt \<equiv>
     (\<lambda>v. case v of
        JStr s \<Rightarrow>
          (if s = ''1'' then Finite 1 else if s = ''3'' then Finite 3
           else if s = ''5'' then Finite 5 else if s = ''-5'' then Finite (- 5) else NaN)
      | JNum n \<Rightarrow> (if - 1000 < n \<and> n < 1000 then Finite n else NaN)
      | _ \<Rightarrow> NaN)"

section \<open>Facts about the string and store operations\<close>

lemma startsWith_iff: "startsWith s t \<longleftrightarrow> (\<exists>ss. s = t @ ss)"
  unfolding startsWith_def
  by (metis append_eq_conv_conj append_take_drop_id)

lemma indexOfFrom_ge: "indexOfFrom i s t \<ge> 0 \<or> indexOfFrom i s t = -1"
  by (induction i s t rule: indexOfFrom.induct) auto

lemma indexOfFrom_found: "indexOfFrom i s t \<ge> 0 \<longleftrightarrow> (\<exists>ps ss. s = ps @ t @ ss)"
proof (induction i s t rule: indexOfFrom.induct)
  case (1 i t)
  then show ?case by auto
next
  case (2 i c cs t)
  show ?case
  proof (cases "startsWith (c # cs) t")
    case True
    then obtain ss where "c # cs = t @ ss" using startsWith_iff by blast
    then have "c # cs = [] @ t @ ss" by simp
    then have "\<exists>ps ss. c # cs = ps @ t @ ss" by blast
    with True show ?thesis by simp
  next
    case False
    have "(\<exists>ps ss. c # cs = ps @ t @ ss) \<longleftrightarrow> (\<exists>ps ss. cs = ps @ t @ ss)"
    proof
      assume "\<exists>ps ss. c # cs = ps @ t @ ss"
      then obtain ps ss where e: "c # cs = ps @ t @ ss" by blast
      show "\<exists>ps ss. cs = ps @ t @ ss"
      proof (cases ps)
        case Nil
        with e have "startsWith (c # cs) t" using startsWith_iff by auto
        with False show ?thesis by simp
      next
        case (Cons p ps')
        with e have "cs = ps' @ t @ ss" by simp
        then show ?thesis by blast
      qed
    next
      assume "\<exists>ps ss. cs = ps @ t @ ss"
      then obtain ps ss where "cs = ps @ t @ ss" by blast
      then have "c # cs = (c # ps) @ t @ ss" by simp
      then show "\<exists>ps ss. c # cs = ps @ t @ ss" by blast
    qed
    with False 2 show ?thesis by simp
  qed
qed

lemma indexOf_found: "indexOf s t \<ge> 0 \<longleftrightarrow> (\<exists>ps ss. s = ps @ t @ ss)"
  unfolding indexOf_def by (rule indexOfFrom_found)

lemma lookup_store_set: "lookup (store_set k v d) k' = (if k' = k then Some v else lookup d k')"
  unfolding lookup_def by (induction d) auto

lemma lookup_store_delete: "lookup (store_delete k d) k' = (if k' = k then None else lookup d k')"
  unfolding lookup_def store_delete_def by (induction d) auto

lemma store_delete_absent: "lookup d k = None \<Longrightarrow> store_delete k d = d"
  unfolding lookup_def store_delete_def
  by (induction d) (auto split: if_splits)

lemma keys_store_set: "fst ` set (store_set k v d) = insert k (fst ` set d)"
proof (induction d)
  case Nil
  then show ?case by simp
next
  case (Cons a d)
  obtain k' v' where a: "a = (k', v')" by (cases a)
  show ?case
  proof (cases "k' = k")
    case True
    with a show ?thesis by simp
  next
    case False
    with a Cons show ?thesis by (simp add: insert_commute)
  qed
qed

lemma distinct_store_set: "distinct (map fst d) \<Longrightarrow> distinct (map fst (store_set k v d))"
proof (induction d)
  case Nil
  then show ?case by simp
next
  case (Cons a d)
  obtain k' v' where a: "a = (k', v')" by (cases a)
  show ?case
  proof (cases "k' = k")
    case True
    with a Cons.prems show ?thesis by simp
  next
    case False
    with a Cons keys_store_set [of k v d] show ?thesis by simp
  qed
qed

lemma set_objectValues: "set (objectValues d) = snd ` set d"
  unfolding objectValues_def by auto

lemma filterE_Inr: "filterE p xs = Inr ys \<Longrightarrow> ys = filter (\<lambda>x. p x = Inr True) xs"
  by (induction xs arbitrary: ys) (auto split: sum.splits if_splits)

lemma filterE_total: "(\<And>x. x \<in> set xs \<Longrightarrow> \<exists>b. p x = Inr b) \<Longrightarrow> \<exists>ys. filterE p xs = Inr ys"
proof (induction xs)
  case Nil
  then show ?case by simp
next
  case (Cons a xs)
  then obtain b where b: "p a = Inr b" by fastforce
  from Cons obtain ys where "filterE p xs = Inr ys" by fastforce
  with b show ?case by simp
qed

lemma reactionMatches_in_filter:
  assumes "matchingReactions rx d msg = Inr rs" and "r \<in> set rs"
  shows "reactionMatches rx (channel_type msg = ''dm'' \<or> isMentioned msg) (trim (cleanContent msg)) r = Inr True"
  using assms filterE_Inr [of "reactionMatches rx (channel_type msg = ''dm'' \<or> isMentioned msg) (trim (cleanContent msg))" "objectValues d" rs]
  by (simp add: matchingReactions_def)

lemma store_set_absent: "lookup d k = None \<Longrightarrow> store_set k v d = d @ [(k, v)]"
  unfolding lookup_def by (induction d) (auto split: if_splits)

lemma store_set_present:
  "k \<notin> fst ` set pre \<Longrightarrow> store_set k v (pre @ (k, old) # post) = pre @ (k, v) # post"
  by (induction pre) auto

lemma upsertData_fields:
  "upsertData parseInt data =
     \<lparr> id_field = (if parseInt (id_in data) = NaN \<or> parseInt (id_in data) = Finite 0 then None
                   else Some (parseInt (id_in data))),
       type_field = (if type_in data = Some [] then None else type_in data),
       trigger = (if trigger_in data = Some [] then None else trigger_in data),
       must_mention = (if parseInt (must_mention_in data) = Finite 1 then 1 else 0),
       insensitive = (if parseInt (insensitive_in data) = Finite 1 then 1 else 0),
       response = (if response_in data = Some [] then None else response_in data),
       emote = (case emote_in data of
                  None \<Rightarrow> None
                | Some e \<Rightarrow> if trim e = [] then None else Some (trim e)),
       do_mention = (if parseInt (do_mention_in data) = Finite 1 then 1 else 0) \<rparr>"
proof -
  have i: "parseIntOrNull parseInt (id_in data) =
      (if parseInt (id_in data) = NaN \<or> parseInt (id_in data) = Finite 0 then None
       else Some (parseInt (id_in data)))"
    by (cases "parseInt (id_in data)") (simp_all add: parseIntOrNull_def)
  have s: "\<And>x. strOrNull x = (if x = Some [] then None else x)"
    by (simp add: strOrNull_def split: option.splits)
  have e: "(if trim (case emote_in data of None \<Rightarrow> [] | Some e \<Rightarrow> e) = [] then None
             else Some (trim (case emote_in data of None \<Rightarrow> [] | Some e \<Rightarrow> e))) =
      (case emote_in data of None \<Rightarrow> None | Some e \<Rightarrow> if trim e = [] then None else Some (trim e))"
    by (cases "emote_in data") (simp_all add: trim_def)
  have "strOrNull (Some (trim (case emote_in data of None \<Rightarrow> [] | Some e \<Rightarrow> e))) =
      (case emote_in data of None \<Rightarrow> None | Some e \<Rightarrow> if trim e = [] then None else Some (trim e))"
    using e by (simp add: strOrNull_def)
  then show ?thesis
    by (simp add: upsertData_def i s parseFlag_def)
qed

lemma isTruthy_iff: "isTruthy x \<longleftrightarrow> x \<noteq> NaN \<and> x \<noteq> Finite 0"
  by (cases x) auto

lemma greaterThanZero_iff:
  "greaterThanZero x \<longleftrightarrow> x = PosInfinity \<or> (\<exists>n. x = Finite n \<and> n > 0)"
  by (cases x) auto

lemma lookup_reload_fold:
  "lookup (foldl (\<lambda>acc row. store_set (keyOfId (id_field row)) row acc) acc rows) k =
     (case find (\<lambda>row. keyOfId (id_field row) = k) (rev rows) of
        None \<Rightarrow> lookup acc k | Some row \<Rightarrow> Some row)"
  by (induction rows arbitrary: acc rule: rev_induct) (auto simp: lookup_store_set)

lemma distinct_reload_fold:
  "distinct (map fst acc) \<Longrightarrow>
   distinct (map fst (foldl (\<lambda>acc row. store_set (keyOfId (id_field row)) row acc) acc rows))"
  by (induction rows arbitrary: acc rule: rev_induct) (auto simp: distinct_store_set simp del: set_map)

section \<open>What insensitive matching does respect\<close>

text \<open>
  With \<open>insensitive\<close> set, the callback sees the message only through its lowercased,
  punctuation-free form, and the trigger only through its lowercased form.
\<close>

lemma toLowerCase_Nil_iff: "toLowerCase t = [] \<longleftrightarrow> t = []"
  by (simp add: toLowerCase_def)

lemma insensitive_chat_invariance:
  assumes "insensitive r \<noteq> 0"
    and "removePunctuation (toLowerCase c1) = removePunctuation (toLowerCase c2)"
  shows "reactionMatches rx m c1 r = reactionMatches rx m c2 r"
  using assms by (simp add: reactionMatches_def chatNormalOf_def split: option.splits)

lemma insensitive_trigger_case_invariance:
  assumes "insensitive r \<noteq> 0" and "toLowerCase t1 = toLowerCase t2"
  shows "reactionMatches rx m c (r\<lparr>trigger := Some t1\<rparr>)
       = reactionMatches rx m c (r\<lparr>trigger := Some t2\<rparr>)"
proof -
  have "t1 = [] \<longleftrightarrow> t2 = []"
    using assms(2) toLowerCase_Nil_iff by metis
  then show ?thesis
    using assms by (simp add: reactionMatches_def chatNormalOf_def triggerNormalOf_def Let_def)
qed

text \<open>
  The message is trimmed before the punctuation is removed, so white space that the
  removal exposes at either end stays in \<open>chatNormal\<close>.
\<close>

lemma trim_precedes_punctuation_removal:
  "handleDiscordMessage rx [] [(KInt 1, mkReaction 1 ''message'' ''a '' 0 1)]
     (mkMessage ''a !'' ''text'' False) = Inr [LogDebug ''ok'' ''a !'', ChannelSend ''ok'']
   \<and> handleDiscordMessage rx [] [(KInt 1, mkReaction 1 ''message'' ''a '' 0 1)]
     (mkMessage ''a '' ''text'' False) = Inr []"
  by code_simp

section \<open>The default of the type switch\<close>

text \<open>
  For a type other than \<open>keyword\<close> and \<open>message\<close> the callback answers exactly
  whether the rule has a non-empty trigger, passes the mention gate, and
  \<open>triggerNormal\<close> occurs inside \<open>chatNormal\<close>, both as the source computes them.
\<close>

lemma default_type_is_substring:
  assumes "type_field r \<noteq> Some TYPE_KEYWORD" and "type_field r \<noteq> Some TYPE_MESSAGE"
  shows "reactionMatches rx didMentionUs cleanText r =
         Inr (\<exists>t. trigger r = Some t \<and> t \<noteq> [] \<and> (must_mention r \<noteq> 0 \<longrightarrow> didMentionUs)
                  \<and> (\<exists>ps ss. chatNormalOf r cleanText = ps @ triggerNormalOf r t @ ss))"
  using assms by (auto simp: reactionMatches_def indexOf_found split: option.splits)

text \<open>
  Lowercasing brings in none of the six characters, so on a trigger that holds none of
  them the source's \<open>triggerNormal\<close> is the specification's normal form.
\<close>

lemma of_char_toLowerChar:
  "(of_char (toLowerChar c) :: nat) = of_char c \<or> (of_char (toLowerChar c) :: nat) \<ge> 97"
proof -
  have "(of_char (char_of (of_char c + (32::nat))) :: nat) = of_char c + 32"
    if "(of_char c :: nat) \<le> 222"
    using that by simp
  then show ?thesis
    by (auto simp: toLowerChar_def Let_def)
qed

lemma toLowerChar_punctuation:
  assumes "toLowerChar c \<in> set ''!?,.'' \<union> {CHR 0x22, CHR 0x27}"
  shows "c \<in> set ''!?,.'' \<union> {CHR 0x22, CHR 0x27}"
proof -
  from assms have small: "(of_char (toLowerChar c) :: nat) < 97"
    by auto
  with of_char_toLowerChar [of c] have "(of_char (toLowerChar c) :: nat) = of_char c"
    by auto
  then have "toLowerChar c = c"
    by (metis char_of_char)
  with assms show ?thesis by simp
qed

lemma removePunctuation_plain:
  assumes "set t \<inter> (set ''!?,.'' \<union> {CHR 0x22, CHR 0x27}) = {}"
  shows "removePunctuation (toLowerCase t) = toLowerCase t"
proof -
  have "\<And>c. c \<in> set t \<Longrightarrow> toLowerChar c \<notin> set ''!?,.'' \<union> {CHR 0x22, CHR 0x27}"
    using assms toLowerChar_punctuation by blast
  then have "\<And>x. x \<in> set (toLowerCase t) \<Longrightarrow> x \<notin> set ''!?,.'' \<union> {CHR 0x22, CHR 0x27}"
    by (auto simp: toLowerCase_def)
  then show ?thesis
    by (auto simp: removePunctuation_def replaceAllEmpty_def filter_id_conv)
qed

lemma chatNormalOf_spec_normalize: "chatNormalOf r c = spec_normalize r c"
  by (simp add: chatNormalOf_def spec_normalize_def)

lemma plain_trigger_spec_normalize:
  assumes "set t \<inter> (set ''!?,.'' \<union> {CHR 0x22, CHR 0x27}) = {}"
  shows "triggerNormalOf r t = spec_normalize r t"
  using removePunctuation_plain [OF assms]
  by (simp add: triggerNormalOf_def spec_normalize_def)

section \<open>Claims\<close>

text \<open>
  C1. The claim: for a rule with \<open>insensitive\<close> set, the result does not change when
  the punctuation characters \<open>! ? ' " , .\<close> are inserted into or removed from the message
  or the trigger, since both are lowercased and stripped. In the source only \<open>chatNormal\<close>
  goes through \<open>replaceAll\<close>; \<open>triggerNormal\<close> is lowercased and nothing more. On the
  message \<open>What's up?\<close> the rule with trigger \<open>whats up\<close> is delivered and the rule
  with trigger \<open>what's up?\<close> is not.
\<close>

theorem insensitive_trigger_punctuation_kept:
  "handleDiscordMessage rx [] [(KInt 1, mkReaction 1 ''text'' ''whats up'' 0 1)]
     (mkMessage ''What's up?'' ''text'' False)
     = Inr [LogDebug ''ok'' ''What's up?'', ChannelSend ''ok'']
   \<and> handleDiscordMessage rx [] [(KInt 1, mkReaction 1 ''text'' ''what's up?'' 0 1)]
     (mkMessage ''What's up?'' ''text'' False)
     = Inr []"
  by code_simp

text \<open>
  C2. The claim: \<open>reloadAll\<close> fails with a load error, and on success returns the
  count of rules loaded. In the source it returns \<open>true\<close>: on two rows the result is
  \<open>true\<close>, not \<open>2\<close>.
\<close>

theorem reloadAll_returns_true_not_count:
  "fst (reloadAll (Inr [mkReaction 2 ''text'' ''cat'' 0 0, mkReaction 1 ''text'' ''dog'' 0 0]) [])
     = JBool True
   \<and> fst (reloadAll (Inr [mkReaction 2 ''text'' ''cat'' 0 0, mkReaction 1 ''text'' ''dog'' 0 0]) [])
     \<noteq> JNum (int (length [mkReaction 2 ''text'' ''cat'' 0 0, mkReaction 1 ''text'' ''dog'' 0 0]))"
  by (simp add: reloadAll_def)

text \<open>
  C2, as the source has it: when the query throws, \<open>reloadAll\<close> returns \<open>false\<close>
  and leaves \<open>_data\<close> as it was; when the query yields rows, it returns \<open>true\<close> and
  \<open>_data\<close> holds exactly the rows read, each under its id, the last row winning when an
  id repeats, with no key listed twice.
\<close>

theorem reloadAll_result:
  "reloadAll (Inl e) d = (JBool False, d)
   \<and> fst (reloadAll (Inr rows) d) = JBool True
   \<and> (\<forall>k. lookup (snd (reloadAll (Inr rows) d)) k =
            find (\<lambda>row. keyOfId (id_field row) = k) (rev rows))
   \<and> distinct (map fst (snd (reloadAll (Inr rows) d)))"
  using lookup_reload_fold [of "[]" rows] distinct_reload_fold [of "[]" rows]
  by (auto simp: reloadAll_def lookup_def split: option.splits)

text \<open>C2 on a failing query and on two rows read over a store that held a third.\<close>

theorem reloadAll_result_witness:
  "reloadAll (Inl DatabaseError) [(KInt 3, mkReaction 3 ''text'' ''cat'' 0 0)]
     = (JBool False, [(KInt 3, mkReaction 3 ''text'' ''cat'' 0 0)])
   \<and> fst (reloadAll (Inr [mkReaction 2 ''text'' ''cat'' 0 0, mkReaction 1 ''text'' ''dog'' 0 0])
            [(KInt 3, mkReaction 3 ''text'' ''cat'' 0 0)]) = JBool True
   \<and> lookup (snd (reloadAll (Inr [mkReaction 2 ''text'' ''cat'' 0 0, mkReaction 1 ''text'' ''dog'' 0 0])
                    [(KInt 3, mkReaction 3 ''text'' ''cat'' 0 0)])) (KInt 1)
       = Some (mkReaction 1 ''text'' ''dog'' 0 0)
   \<and> lookup (snd (reloadAll (Inr [mkReaction 2 ''text'' ''cat'' 0 0, mkReaction 1 ''text'' ''dog'' 0 0])
                    [(KInt 3, mkReaction 3 ''text'' ''cat'' 0 0)])) (KInt 3) = None"
  using reloadAll_result [of DatabaseError "[(KInt 3, mkReaction 3 ''text'' ''cat'' 0 0)]"
      "[mkReaction 2 ''text'' ''cat'' 0 0, mkReaction 1 ''text'' ''dog'' 0 0]"]
  by simp

text \<open>
  C3. The claim: a rule of type \<open>message\<close> is selected exactly when the normalised
  message equals the normalised trigger, the normalisation being the same on both sides.
  For the insensitive rule with trigger \<open>Hi!\<close> both \<open>hi\<close> and \<open>Hi!\<close> normalise to
  the trigger's normal form, yet the source selects the rule for neither message,
  because it compares the stripped message with the unstripped trigger.
\<close>

theorem message_rule_trigger_not_stripped:
  "spec_normalize (mkReaction 1 ''message'' ''Hi!'' 0 1) ''hi''
     = spec_normalize (mkReaction 1 ''message'' ''Hi!'' 0 1) ''Hi!''
   \<and> reactionMatches rx True ''hi'' (mkReaction 1 ''message'' ''Hi!'' 0 1) = Inr False
   \<and> reactionMatches rx True ''Hi!'' (mkReaction 1 ''message'' ''Hi!'' 0 1) = Inr False"
  by code_simp

text \<open>
  C4. A rule whose \<open>must_mention\<close> is set is not matched by a message that is not a
  direct message and does not mention the bot: the callback answers \<open>false\<close> whatever
  the trigger, the type and the text are, and the rule is in no list of matching
  reactions.
\<close>

theorem must_mention_gate:
  assumes "must_mention r \<noteq> 0" and "channel_type msg \<noteq> ''dm''" and "\<not> isMentioned msg"
  shows "reactionMatches rx (channel_type msg = ''dm'' \<or> isMentioned msg) cleanText r = Inr False
       \<and> (\<forall>rs. matchingReactions rx d msg = Inr rs \<longrightarrow> r \<notin> set rs)"
proof -
  have m: "\<And>c. reactionMatches rx (channel_type msg = ''dm'' \<or> isMentioned msg) c r = Inr False"
    using assms by (simp add: reactionMatches_def split: option.splits)
  have "r \<notin> set rs" if "matchingReactions rx d msg = Inr rs" for rs
    using reactionMatches_in_filter [OF that, of r] m by auto
  with m show ?thesis by blast
qed

text \<open>C4 on a channel message \<open>cat\<close>: the rule that must be mentioned is left out, its twin is kept.\<close>

theorem must_mention_gate_witness:
  "must_mention (mkReaction 1 ''text'' ''cat'' 1 0) \<noteq> 0
   \<and> channel_type (mkMessage ''cat'' ''text'' False) \<noteq> ''dm''
   \<and> \<not> isMentioned (mkMessage ''cat'' ''text'' False)
   \<and> reactionMatches (\<lambda>p s. Inr True) False ''cat'' (mkReaction 1 ''text'' ''cat'' 1 0) = Inr False
   \<and> matchingReactions (\<lambda>p s. Inr True)
        [(KInt 1, mkReaction 1 ''text'' ''cat'' 1 0), (KInt 2, mkReaction 2 ''text'' ''cat'' 0 0)]
        (mkMessage ''cat'' ''text'' False) = Inr [mkReaction 2 ''text'' ''cat'' 0 0]
   \<and> mkReaction 1 ''text'' ''cat'' 1 0 \<notin> set [mkReaction 2 ''text'' ''cat'' 0 0]"
proof -
  have h1: "must_mention (mkReaction 1 ''text'' ''cat'' 1 0) \<noteq> 0" by simp
  have h2: "channel_type (mkMessage ''cat'' ''text'' False) \<noteq> ''dm''" by simp
  have h3: "\<not> isMentioned (mkMessage ''cat'' ''text'' False)" by simp
  have e: "matchingReactions (\<lambda>p s. Inr True)
        [(KInt 1, mkReaction 1 ''text'' ''cat'' 1 0), (KInt 2, mkReaction 2 ''text'' ''cat'' 0 0)]
        (mkMessage ''cat'' ''text'' False) = Inr [mkReaction 2 ''text'' ''cat'' 0 0]"
    by code_simp
  show ?thesis
    using h1 h2 h3 e
      must_mention_gate [OF h1 h2 h3, of "\<lambda>p s. Inr True" "''cat''"
        "[(KInt 1, mkReaction 1 ''text'' ''cat'' 1 0), (KInt 2, mkReaction 2 ''text'' ''cat'' 0 0)]"]
    by simp
qed

text \<open>
  C5. A rule whose trigger is \<open>null\<close> or empty is never selected: the callback answers
  \<open>false\<close> for every message, mention flag, type and regular-expression engine, and the
  rule is in no list of matching reactions. Such a rule can be stored: a write request
  without a trigger, once the database accepts it, leaves an entry with a \<open>null\<close>
  trigger in \<open>_data\<close>, under the key of the record id.
\<close>

theorem empty_trigger_inert:
  assumes "trigger r = None \<or> trigger r = Some []"
  shows "reactionMatches rx didMentionUs cleanText r = Inr False
       \<and> (\<forall>rs. matchingReactions rx d msg = Inr rs \<longrightarrow> r \<notin> set rs)
       \<and> (\<forall>parseInt data insertOrUpdate.
             (trigger_in data = None \<or> trigger_in data = Some [])
             \<and> insertOrUpdate (upsertData parseInt data) \<noteq> JBool False \<longrightarrow>
             (\<exists>u. lookup (snd (handleApiWriteReaction parseInt insertOrUpdate data d))
                      (keyOfNum (parseInt (insertOrUpdate (upsertData parseInt data)))) = Some u
                  \<and> trigger u = None))"
proof -
  have m: "\<And>m c. reactionMatches rx m c r = Inr False"
    using assms by (auto simp: reactionMatches_def)
  have f: "r \<notin> set rs" if "matchingReactions rx d msg = Inr rs" for rs
    using reactionMatches_in_filter [OF that, of r] m by auto
  have s: "\<exists>u. lookup (snd (handleApiWriteReaction p g data d))
                  (keyOfNum (p (g (upsertData p data)))) = Some u \<and> trigger u = None"
    if "trigger_in data = None \<or> trigger_in data = Some []" and "g (upsertData p data) \<noteq> JBool False"
    for data g p
  proof -
    have "trigger (upsertData p data) = None"
      using that(1) by (auto simp: upsertData_def strOrNull_def)
    then show ?thesis
      using that(2) by (simp add: handleApiWriteReaction_def Let_def lookup_store_set)
  qed
  from m f s show ?thesis by blast
qed

text \<open>C5 on a rule with a \<open>null\<close> trigger, a rule with an empty one, and a write of a blank trigger.\<close>

theorem empty_trigger_inert_witness:
  "trigger ((mkReaction 1 ''text'' '''' 0 0)\<lparr>trigger := None\<rparr>) = None
   \<and> reactionMatches (\<lambda>p s. Inr True) True ''cat''
        ((mkReaction 1 ''text'' '''' 0 0)\<lparr>trigger := None\<rparr>) = Inr False
   \<and> reactionMatches (\<lambda>p s. Inr True) True ''cat'' (mkReaction 1 ''keyword'' '''' 0 0) = Inr False
   \<and> trigger_in (mkWrite JNull (Some '''')) = Some []
   \<and> (\<exists>u. lookup (snd (handleApiWriteReaction sampleParseInt (\<lambda>u. JNum 7) (mkWrite JNull (Some '''')) []))
              (KInt 7) = Some u \<and> trigger u = None)"
proof -
  have h1: "trigger ((mkReaction 1 ''text'' '''' 0 0)\<lparr>trigger := None\<rparr>) = None
            \<or> trigger ((mkReaction 1 ''text'' '''' 0 0)\<lparr>trigger := None\<rparr>) = Some []" by simp
  have h2: "trigger (mkReaction 1 ''keyword'' '''' 0 0) = None
            \<or> trigger (mkReaction 1 ''keyword'' '''' 0 0) = Some []" by simp
  from empty_trigger_inert [OF h2, of "\<lambda>p s. Inr True" True "''cat''" "[]"]
  have a: "reactionMatches (\<lambda>p s. Inr True) True ''cat'' (mkReaction 1 ''keyword'' '''' 0 0) = Inr False"
    and b: "\<forall>parseInt data insertOrUpdate.
             (trigger_in data = None \<or> trigger_in data = Some [])
             \<and> insertOrUpdate (upsertData parseInt data) \<noteq> JBool False \<longrightarrow>
             (\<exists>u. lookup (snd (handleApiWriteReaction parseInt insertOrUpdate data []))
                      (keyOfNum (parseInt (insertOrUpdate (upsertData parseInt data)))) = Some u
                  \<and> trigger u = None)"
    by blast+
  have "\<exists>u. lookup (snd (handleApiWriteReaction sampleParseInt (\<lambda>u. JNum 7) (mkWrite JNull (Some '''')) []))
              (keyOfNum (sampleParseInt ((\<lambda>u. JNum 7) (upsertData sampleParseInt (mkWrite JNull (Some '''')))))) = Some u
            \<and> trigger u = None"
    using b [rule_format, of "mkWrite JNull (Some '''')" "\<lambda>u. JNum 7" sampleParseInt] by simp
  then have b': "\<exists>u. lookup (snd (handleApiWriteReaction sampleParseInt (\<lambda>u. JNum 7) (mkWrite JNull (Some '''')) []))
              (KInt 7) = Some u \<and> trigger u = None"
    by simp
  from empty_trigger_inert [OF h1, of "\<lambda>p s. Inr True" True "''cat''" "[]"]
  have c: "reactionMatches (\<lambda>p s. Inr True) True ''cat''
        ((mkReaction 1 ''text'' '''' 0 0)\<lparr>trigger := None\<rparr>) = Inr False"
    by blast
  from a b' c show ?thesis by simp
qed

text \<open>
  C6. The claim: on success the entry is patched with the normalised input, which the
  specification describes as booleans coerced to \<open>0\<close>/\<open>1\<close> and blank strings coerced
  to absent. The source computes each flag as \<open>parseInt(v) === 1 ? 1 : 0\<close>, and
  \<open>parseInt(true)\<close> is \<open>NaN\<close>: a request with \<open>insensitive: true\<close> is stored with
  \<open>insensitive = 0\<close>, where the coerced boolean is \<open>1\<close>.
\<close>

theorem write_stores_true_flag_as_zero:
  "insensitive_in (mkWrite JNull (Some ''dog'')) = JBool True
   \<and> sampleParseInt (JBool True) = NaN
   \<and> map_option insensitive
        (lookup (snd (handleApiWriteReaction sampleParseInt (\<lambda>u. JNum 7)
                        (mkWrite JNull (Some ''dog'')) [])) (KInt 7)) = Some 0
   \<and> map_option insensitive
        (lookup (snd (handleApiWriteReaction sampleParseInt (\<lambda>u. JNum 7)
                        (mkWrite JNull (Some ''dog'')) [])) (KInt 7))
       \<noteq> Some (spec_coerce_boolean True)"
  by (simp add: handleApiWriteReaction_def upsertData_def parseFlag_def parseIntOrNull_def
        strOrNull_def lookup_def spec_coerce_boolean_def Let_def)

text \<open>
  C6, as the source has it. The record handed to the database is the input normalised
  field by field: a flag is \<open>1\<close> exactly when \<open>parseInt\<close> of the submitted value is
  \<open>1\<close> and \<open>0\<close> otherwise, a blank or missing text field is \<open>null\<close>, the emote is
  trimmed first, and the id is the parsed request id, or \<open>null\<close> when that is \<open>NaN\<close> or
  zero. When the database answers \<open>false\<close> the handler returns \<open>false\<close> and \<open>_data\<close>
  is unchanged. Otherwise exactly the entry under the key of the parsed answer is set
  to that record, with the parsed answer as its id when the request had none: it
  replaces the old binding in place, or is appended when the key is new, and every
  other key keeps its entry.
\<close>

theorem write_patches_one_entry:
  "(let u0 = \<lparr> id_field = (if parseInt (id_in data) = NaN \<or> parseInt (id_in data) = Finite 0
                            then None else Some (parseInt (id_in data))),
                type_field = (if type_in data = Some [] then None else type_in data),
                trigger = (if trigger_in data = Some [] then None else trigger_in data),
                must_mention = (if parseInt (must_mention_in data) = Finite 1 then 1 else 0),
                insensitive = (if parseInt (insensitive_in data) = Finite 1 then 1 else 0),
                response = (if response_in data = Some [] then None else response_in data),
                emote = (case emote_in data of
                           None \<Rightarrow> None
                         | Some e \<Rightarrow> if trim e = [] then None else Some (trim e)),
                do_mention = (if parseInt (do_mention_in data) = Finite 1 then 1 else 0) \<rparr>;
        result = insertOrUpdate u0;
        recordId = parseInt result;
        u = (if id_field u0 = None \<and> recordId \<noteq> NaN \<and> recordId \<noteq> Finite 0
             then u0\<lparr>id_field := Some recordId\<rparr> else u0);
        k = keyOfNum recordId;
        out = handleApiWriteReaction parseInt insertOrUpdate data d
    in upsertData parseInt data = u0
       \<and> (result = JBool False \<longrightarrow> out = (JBool False, d))
       \<and> (result \<noteq> JBool False \<longrightarrow>
            fst out = JUndefined
            \<and> (lookup d k = None \<longrightarrow> snd out = d @ [(k, u)])
            \<and> (\<forall>pre old post. d = pre @ (k, old) # post \<and> k \<notin> fst ` set pre \<longrightarrow>
                  snd out = pre @ (k, u) # post)
            \<and> lookup (snd out) k = Some u
            \<and> (\<forall>k'. k' \<noteq> k \<longrightarrow> lookup (snd out) k' = lookup d k')))"
proof -
  define u0 where "u0 = upsertData parseInt data"
  define recordId where "recordId = parseInt (insertOrUpdate u0)"
  define u where "u = (if id_field u0 = None \<and> recordId \<noteq> NaN \<and> recordId \<noteq> Finite 0
             then u0\<lparr>id_field := Some recordId\<rparr> else u0)"
  have t: "isTruthyId (id_field u0) \<longleftrightarrow> id_field u0 \<noteq> None"
    unfolding u0_def upsertData_def parseIntOrNull_def by simp
  have fail: "handleApiWriteReaction parseInt insertOrUpdate data d = (JBool False, d)"
    if "insertOrUpdate u0 = JBool False"
    using that by (simp add: handleApiWriteReaction_def u0_def)
  have ok: "handleApiWriteReaction parseInt insertOrUpdate data d
              = (JUndefined, store_set (keyOfNum recordId) u d)"
    if "insertOrUpdate u0 \<noteq> JBool False"
    using that t
    by (simp add: handleApiWriteReaction_def Let_def isTruthy_iff u_def recordId_def u0_def [symmetric])
  have c1: "fst (handleApiWriteReaction parseInt insertOrUpdate data d) = JUndefined"
    if "insertOrUpdate u0 \<noteq> JBool False"
    using ok [OF that] by simp
  have c2: "snd (handleApiWriteReaction parseInt insertOrUpdate data d)
              = d @ [(keyOfNum recordId, u)]"
    if "insertOrUpdate u0 \<noteq> JBool False" and "lookup d (keyOfNum recordId) = None"
    using ok [OF that(1)] store_set_absent [OF that(2), of u] by simp
  have c3: "snd (handleApiWriteReaction parseInt insertOrUpdate data d)
              = pre @ (keyOfNum recordId, u) # post"
    if "insertOrUpdate u0 \<noteq> JBool False"
      and "d = pre @ (keyOfNum recordId, old) # post \<and> keyOfNum recordId \<notin> fst ` set pre"
    for pre old post
  proof -
    from that(2) have "store_set (keyOfNum recordId) u d = pre @ (keyOfNum recordId, u) # post"
      using store_set_present [of "keyOfNum recordId" pre u old post] by blast
    with ok [OF that(1)] show ?thesis by simp
  qed
  have c4: "lookup (snd (handleApiWriteReaction parseInt insertOrUpdate data d))
              (keyOfNum recordId) = Some u"
    if "insertOrUpdate u0 \<noteq> JBool False"
    using ok [OF that] by (simp add: lookup_store_set)
  have c5: "lookup (snd (handleApiWriteReaction parseInt insertOrUpdate data d)) k' = lookup d k'"
    if "insertOrUpdate u0 \<noteq> JBool False" and "k' \<noteq> keyOfNum recordId" for k'
    using ok [OF that(1)] that(2) by (simp add: lookup_store_set)
  have "upsertData parseInt data = u0
       \<and> (insertOrUpdate u0 = JBool False \<longrightarrow>
            handleApiWriteReaction parseInt insertOrUpdate data d = (JBool False, d))
       \<and> (insertOrUpdate u0 \<noteq> JBool False \<longrightarrow>
            fst (handleApiWriteReaction parseInt insertOrUpdate data d) = JUndefined
            \<and> (lookup d (keyOfNum recordId) = None \<longrightarrow>
                  snd (handleApiWriteReaction parseInt insertOrUpdate data d)
                    = d @ [(keyOfNum recordId, u)])
            \<and> (\<forall>pre old post. d = pre @ (keyOfNum recordId, old) # post
                    \<and> keyOfNum recordId \<notin> fst ` set pre \<longrightarrow>
                  snd (handleApiWriteReaction parseInt insertOrUpdate data d)
                    = pre @ (keyOfNum recordId, u) # post)
            \<and> lookup (snd (handleApiWriteReaction parseInt insertOrUpdate data d))
                  (keyOfNum recordId) = Some u
            \<and> (\<forall>k'. k' \<noteq> keyOfNum recordId \<longrightarrow>
                  lookup (snd (handleApiWriteReaction parseInt insertOrUpdate data d)) k'
                    = lookup d k'))"
    using fail c1 c2 c3 c4 c5 u0_def by blast
  then show ?thesis
    unfolding Let_def u_def recordId_def u0_def upsertData_fields [of parseInt data] .
qed

text \<open>
  C6 on a refused update of rule 3, on an accepted insert that the database numbers 7,
  and on an accepted update of rule 3 in a store that also holds rule 4.
\<close>

theorem write_patches_one_entry_witness:
  "handleApiWriteReaction sampleParseInt (\<lambda>u. JBool False) (mkWrite (JStr ''3'') (Some ''dog''))
      [(KInt 3, mkReaction 3 ''text'' ''cat'' 0 0)]
     = (JBool False, [(KInt 3, mkReaction 3 ''text'' ''cat'' 0 0)])
   \<and> handleApiWriteReaction sampleParseInt (\<lambda>u. JNum 7) (mkWrite JNull (Some ''dog''))
      [(KInt 3, mkReaction 3 ''text'' ''cat'' 0 0)]
     = (JUndefined,
        [(KInt 3, mkReaction 3 ''text'' ''cat'' 0 0),
         (KInt 7, \<lparr> id_field = Some (Finite 7), type_field = Some ''text'', trigger = Some ''dog'',
                    must_mention = 1, insensitive = 0, response = Some ''ok'',
                    emote = Some '':tada:'', do_mention = 0 \<rparr>)])
   \<and> handleApiWriteReaction sampleParseInt (\<lambda>u. JNum 3) (mkWrite (JStr ''3'') (Some ''dog''))
      [(KInt 3, mkReaction 3 ''text'' ''cat'' 0 0), (KInt 4, mkReaction 4 ''text'' ''cow'' 0 0)]
     = (JUndefined,
        [(KInt 3, \<lparr> id_field = Some (Finite 3), type_field = Some ''text'', trigger = Some ''dog'',
                    must_mention = 1, insensitive = 0, response = Some ''ok'',
                    emote = Some '':tada:'', do_mention = 0 \<rparr>),
         (KInt 4, mkReaction 4 ''text'' ''cow'' 0 0)])"
proof -
  have tr: "trim '' :tada: '' = '':tada:''" by code_simp
  have l7: "lookup [(KInt 3, mkReaction 3 ''text'' ''cat'' 0 0)] (KInt 7) = None"
    by (simp add: lookup_def)
  from write_patches_one_entry [of sampleParseInt "mkWrite (JStr ''3'') (Some ''dog'')"
         "\<lambda>u. JBool False" "[(KInt 3, mkReaction 3 ''text'' ''cat'' 0 0)]"]
  have a: "handleApiWriteReaction sampleParseInt (\<lambda>u. JBool False) (mkWrite (JStr ''3'') (Some ''dog''))
      [(KInt 3, mkReaction 3 ''text'' ''cat'' 0 0)]
     = (JBool False, [(KInt 3, mkReaction 3 ''text'' ''cat'' 0 0)])"
    by (simp add: Let_def)
  from write_patches_one_entry [of sampleParseInt "mkWrite JNull (Some ''dog'')"
         "\<lambda>u. JNum 7" "[(KInt 3, mkReaction 3 ''text'' ''cat'' 0 0)]"] l7 tr
  have b: "handleApiWriteReaction sampleParseInt (\<lambda>u. JNum 7) (mkWrite JNull (Some ''dog''))
      [(KInt 3, mkReaction 3 ''text'' ''cat'' 0 0)]
     = (JUndefined,
        [(KInt 3, mkReaction 3 ''text'' ''cat'' 0 0),
         (KInt 7, \<lparr> id_field = Some (Finite 7), type_field = Some ''text'', trigger = Some ''dog'',
                    must_mention = 1, insensitive = 0, response = Some ''ok'',
                    emote = Some '':tada:'', do_mention = 0 \<rparr>)])"
    by (simp add: Let_def prod_eq_iff)
  from write_patches_one_entry [of sampleParseInt "mkWrite (JStr ''3'') (Some ''dog'')"
         "\<lambda>u. JNum 3"
         "[(KInt 3, mkReaction 3 ''text'' ''cat'' 0 0), (KInt 4, mkReaction 4 ''text'' ''cow'' 0 0)]"] tr
  have f: "fst (handleApiWriteReaction sampleParseInt (\<lambda>u. JNum 3) (mkWrite (JStr ''3'') (Some ''dog''))
      [(KInt 3, mkReaction 3 ''text'' ''cat'' 0 0), (KInt 4, mkReaction 4 ''text'' ''cow'' 0 0)]) = JUndefined"
    and q: "\<forall>pre old post.
          [(KInt 3, mkReaction 3 ''text'' ''cat'' 0 0), (KInt 4, mkReaction 4 ''text'' ''cow'' 0 0)]
            = pre @ (KInt 3, old) # post \<and> KInt 3 \<notin> fst ` set pre \<longrightarrow>
          snd (handleApiWriteReaction sampleParseInt (\<lambda>u. JNum 3) (mkWrite (JStr ''3'') (Some ''dog''))
                [(KInt 3, mkReaction 3 ''text'' ''cat'' 0 0), (KInt 4, mkReaction 4 ''text'' ''cow'' 0 0)])
            = pre @ (KInt 3, \<lparr> id_field = Some (Finite 3), type_field = Some ''text'',
                    trigger = Some ''dog'', must_mention = 1, insensitive = 0, response = Some ''ok'',
                    emote = Some '':tada:'', do_mention = 0 \<rparr>) # post"
    by (simp_all add: Let_def)
  from q [rule_format, of "[]" "mkReaction 3 ''text'' ''cat'' 0 0" "[(KInt 4, mkReaction 4 ''text'' ''cow'' 0 0)]"]
  have "snd (handleApiWriteReaction sampleParseInt (\<lambda>u. JNum 3) (mkWrite (JStr ''3'') (Some ''dog''))
                [(KInt 3, mkReaction 3 ''text'' ''cat'' 0 0), (KInt 4, mkReaction 4 ''text'' ''cow'' 0 0)])
       = [(KInt 3, \<lparr> id_field = Some (Finite 3), type_field = Some ''text'', trigger = Some ''dog'',
                    must_mention = 1, insensitive = 0, response = Some ''ok'',
                    emote = Some '':tada:'', do_mention = 0 \<rparr>),
          (KInt 4, mkReaction 4 ''text'' ''cow'' 0 0)]"
    by simp
  with f have c: "handleApiWriteReaction sampleParseInt (\<lambda>u. JNum 3) (mkWrite (JStr ''3'') (Some ''dog''))
      [(KInt 3, mkReaction 3 ''text'' ''cat'' 0 0), (KInt 4, mkReaction 4 ''text'' ''cow'' 0 0)]
     = (JUndefined,
        [(KInt 3, \<lparr> id_field = Some (Finite 3), type_field = Some ''text'', trigger = Some ''dog'',
                    must_mention = 1, insensitive = 0, response = Some ''ok'',
                    emote = Some '':tada:'', do_mention = 0 \<rparr>),
         (KInt 4, mkReaction 4 ''text'' ''cow'' 0 0)])"
    by (simp add: prod_eq_iff)
  from a b c show ?thesis by blast
qed

text \<open>
  C7. Deleting an id that \<open>_data\<close> does not hold leaves \<open>_data\<close> unchanged, whatever
  the database answers; so does a request whose id is missing, zero, negative or not a
  number, and one whose deletion the database does not confirm. In every case the store
  afterwards is the old one or the old one without the bindings of the given id, and
  the entry of every other key is what it was.
\<close>

theorem delete_absent_is_noop:
  "(lookup d (keyOfNum (parseInt data_id)) = None \<longrightarrow>
      fst (handleApiReactionDelete parseInt deleteIfExists data_id d) = d)
   \<and> (parseInt data_id = NaN \<or> parseInt data_id = NegInfinity
        \<or> (\<exists>n. parseInt data_id = Finite n \<and> n \<le> 0) \<longrightarrow>
      fst (handleApiReactionDelete parseInt deleteIfExists data_id d) = d)
   \<and> (deleteIfExists (parseInt data_id) = False \<longrightarrow>
      fst (handleApiReactionDelete parseInt deleteIfExists data_id d) = d)
   \<and> (fst (handleApiReactionDelete parseInt deleteIfExists data_id d) = d
      \<or> fst (handleApiReactionDelete parseInt deleteIfExists data_id d) =
          filter (\<lambda>kv. fst kv \<noteq> keyOfNum (parseInt data_id)) d)
   \<and> (\<forall>k. k \<noteq> keyOfNum (parseInt data_id) \<longrightarrow>
        lookup (fst (handleApiReactionDelete parseInt deleteIfExists data_id d)) k = lookup d k)"
proof -
  have a: "fst (handleApiReactionDelete parseInt deleteIfExists data_id d) = d"
    if "lookup d (keyOfNum (parseInt data_id)) = None"
    using that
    by (simp add: handleApiReactionDelete_def parseIntOrNull_def Let_def store_delete_absent)
  have b: "fst (handleApiReactionDelete parseInt deleteIfExists data_id d) = d"
    if "parseInt data_id = NaN \<or> parseInt data_id = NegInfinity
        \<or> (\<exists>n. parseInt data_id = Finite n \<and> n \<le> 0)"
    using that by (auto simp: handleApiReactionDelete_def parseIntOrNull_def)
  have c: "fst (handleApiReactionDelete parseInt deleteIfExists data_id d) = d"
    if "deleteIfExists (parseInt data_id) = False"
    using that by (simp add: handleApiReactionDelete_def parseIntOrNull_def Let_def)
  have e: "fst (handleApiReactionDelete parseInt deleteIfExists data_id d) = d
      \<or> fst (handleApiReactionDelete parseInt deleteIfExists data_id d) =
          filter (\<lambda>kv. fst kv \<noteq> keyOfNum (parseInt data_id)) d"
    by (simp add: handleApiReactionDelete_def parseIntOrNull_def Let_def store_delete_def)
  have f: "lookup (fst (handleApiReactionDelete parseInt deleteIfExists data_id d)) k = lookup d k"
    if "k \<noteq> keyOfNum (parseInt data_id)" for k
    using that
    by (simp add: handleApiReactionDelete_def parseIntOrNull_def Let_def lookup_store_delete)
  from a b c e f show ?thesis by blast
qed

text \<open>
  C7 on a delete of id 5 from a store holding only rule 3 and from one holding rules 3
  and 5, and on a request without an id.
\<close>

theorem delete_absent_is_noop_witness:
  "lookup [(KInt 3, mkReaction 3 ''text'' ''cat'' 0 0)] (keyOfNum (sampleParseInt (JStr ''5''))) = None
   \<and> fst (handleApiReactionDelete sampleParseInt (\<lambda>n. True) (JStr ''5'')
            [(KInt 3, mkReaction 3 ''text'' ''cat'' 0 0)])
       = [(KInt 3, mkReaction 3 ''text'' ''cat'' 0 0)]
   \<and> sampleParseInt JUndefined = NaN
   \<and> fst (handleApiReactionDelete sampleParseInt (\<lambda>n. True) JUndefined
            [(KInt 3, mkReaction 3 ''text'' ''cat'' 0 0), (KNaN, mkReaction 5 ''text'' ''dog'' 0 0)])
       = [(KInt 3, mkReaction 3 ''text'' ''cat'' 0 0), (KNaN, mkReaction 5 ''text'' ''dog'' 0 0)]
   \<and> KInt 3 \<noteq> keyOfNum (sampleParseInt (JStr ''5''))
   \<and> lookup (fst (handleApiReactionDelete sampleParseInt (\<lambda>n. True) (JStr ''5'')
                    [(KInt 3, mkReaction 3 ''text'' ''cat'' 0 0), (KInt 5, mkReaction 5 ''text'' ''dog'' 0 0)]))
         (KInt 3) = Some (mkReaction 3 ''text'' ''cat'' 0 0)
   \<and> lookup (fst (handleApiReactionDelete sampleParseInt (\<lambda>n. True) (JStr ''5'')
                    [(KInt 3, mkReaction 3 ''text'' ''cat'' 0 0), (KInt 5, mkReaction 5 ''text'' ''dog'' 0 0)]))
         (KInt 5) = None"
proof -
  have l: "lookup [(KInt 3, mkReaction 3 ''text'' ''cat'' 0 0)] (keyOfNum (sampleParseInt (JStr ''5''))) = None"
    by (simp add: lookup_def)
  have p: "sampleParseInt JUndefined = NaN" by simp
  have k: "KInt 3 \<noteq> keyOfNum (sampleParseInt (JStr ''5''))" by simp
  have l2: "lookup [(KInt 3, mkReaction 3 ''text'' ''cat'' 0 0), (KInt 5, mkReaction 5 ''text'' ''dog'' 0 0)]
              (KInt 3) = Some (mkReaction 3 ''text'' ''cat'' 0 0)"
    by (simp add: lookup_def)
  from delete_absent_is_noop [of "[(KInt 3, mkReaction 3 ''text'' ''cat'' 0 0)]" sampleParseInt
         "JStr ''5''" "\<lambda>n. True"] l
  have a: "fst (handleApiReactionDelete sampleParseInt (\<lambda>n. True) (JStr ''5'')
            [(KInt 3, mkReaction 3 ''text'' ''cat'' 0 0)])
       = [(KInt 3, mkReaction 3 ''text'' ''cat'' 0 0)]"
    by blast
  from delete_absent_is_noop [of
         "[(KInt 3, mkReaction 3 ''text'' ''cat'' 0 0), (KNaN, mkReaction 5 ''text'' ''dog'' 0 0)]"
         sampleParseInt JUndefined "\<lambda>n. True"] p
  have b: "fst (handleApiReactionDelete sampleParseInt (\<lambda>n. True) JUndefined
            [(KInt 3, mkReaction 3 ''text'' ''cat'' 0 0), (KNaN, mkReaction 5 ''text'' ''dog'' 0 0)])
       = [(KInt 3, mkReaction 3 ''text'' ''cat'' 0 0), (KNaN, mkReaction 5 ''text'' ''dog'' 0 0)]"
    by blast
  from delete_absent_is_noop [of
         "[(KInt 3, mkReaction 3 ''text'' ''cat'' 0 0), (KInt 5, mkReaction 5 ''text'' ''dog'' 0 0)]"
         sampleParseInt "JStr ''5''" "\<lambda>n. True"] k
  have "lookup (fst (handleApiReactionDelete sampleParseInt (\<lambda>n. True) (JStr ''5'')
                    [(KInt 3, mkReaction 3 ''text'' ''cat'' 0 0), (KInt 5, mkReaction 5 ''text'' ''dog'' 0 0)]))
         (KInt 3)
        = lookup [(KInt 3, mkReaction 3 ''text'' ''cat'' 0 0), (KInt 5, mkReaction 5 ''text'' ''dog'' 0 0)]
            (KInt 3)"
    by blast
  with l2 have c: "lookup (fst (handleApiReactionDelete sampleParseInt (\<lambda>n. True) (JStr ''5'')
                    [(KInt 3, mkReaction 3 ''text'' ''cat'' 0 0), (KInt 5, mkReaction 5 ''text'' ''dog'' 0 0)]))
         (KInt 3) = Some (mkReaction 3 ''text'' ''cat'' 0 0)"
    by simp
  have e: "lookup (fst (handleApiReactionDelete sampleParseInt (\<lambda>n. True) (JStr ''5'')
                    [(KInt 3, mkReaction 3 ''text'' ''cat'' 0 0), (KInt 5, mkReaction 5 ''text'' ''dog'' 0 0)]))
         (KInt 5) = None"
    by (simp add: handleApiReactionDelete_def parseIntOrNull_def Let_def store_delete_def lookup_def)
  from l p k a b c e show ?thesis by blast
qed

text \<open>
  C8. A message written by a bot, a system message, and a message whose text trims to
  the empty string produce no effect at all: \<open>_handleDiscordMessage\<close> returns before it
  looks at any rule, so not even a rule whose pattern would make the engine throw is
  evaluated.
\<close>

theorem message_filter_gates:
  assumes "author_bot msg \<or> system msg \<or> trim (cleanContent msg) = []"
  shows "handleDiscordMessage rx es d msg = Inr []"
  using assms by (auto simp: handleDiscordMessage_def)

text \<open>C8 on a blank message and on a bot's message, against a rule whose pattern the engine rejects.\<close>

theorem message_filter_gates_witness:
  "trim (cleanContent (mkMessage ''  '' ''dm'' True)) = []
   \<and> handleDiscordMessage (\<lambda>p s. Inl SyntaxError) []
        [(KInt 1, mkReaction 1 ''keyword'' ''('' 0 0)] (mkMessage ''  '' ''dm'' True) = Inr []
   \<and> author_bot ((mkMessage ''('' ''dm'' True)\<lparr>author_bot := True\<rparr>)
   \<and> handleDiscordMessage (\<lambda>p s. Inl SyntaxError) []
        [(KInt 1, mkReaction 1 ''keyword'' ''('' 0 0)]
        ((mkMessage ''('' ''dm'' True)\<lparr>author_bot := True\<rparr>) = Inr []"
proof -
  have h1: "trim (cleanContent (mkMessage ''  '' ''dm'' True)) = []" by code_simp
  have h2: "author_bot ((mkMessage ''('' ''dm'' True)\<lparr>author_bot := True\<rparr>)" by simp
  from h1 have g1: "author_bot (mkMessage ''  '' ''dm'' True) \<or> system (mkMessage ''  '' ''dm'' True)
      \<or> trim (cleanContent (mkMessage ''  '' ''dm'' True)) = []" by blast
  from h2 have g2: "author_bot ((mkMessage ''('' ''dm'' True)\<lparr>author_bot := True\<rparr>)
      \<or> system ((mkMessage ''('' ''dm'' True)\<lparr>author_bot := True\<rparr>)
      \<or> trim (cleanContent ((mkMessage ''('' ''dm'' True)\<lparr>author_bot := True\<rparr>)) = []" by blast
  show ?thesis
    using h1 h2 message_filter_gates [OF g1] message_filter_gates [OF g2] by blast
qed

text \<open>
  C9. The claim: a rule whose type is missing or unknown is matched exactly when the
  normalised trigger occurs inside the normalised message. For the insensitive rule of
  the unknown type \<open>emoji\<close>, or of no type, with trigger \<open>Hi!\<close>, the normalised
  trigger \<open>hi\<close> occurs inside the normalised message \<open>hi\<close>, yet the source does not
  select the rule for the message \<open>Hi!\<close>: it looks for the unstripped \<open>hi!\<close> inside
  the stripped \<open>hi\<close>. Substring semantics itself is applied: the same rule with
  trigger \<open>Hi\<close> is selected for \<open>say HI there\<close>.
\<close>

theorem default_type_trigger_not_stripped:
  "type_field (mkReaction 1 ''emoji'' ''Hi!'' 0 1) \<noteq> Some TYPE_KEYWORD
   \<and> type_field (mkReaction 1 ''emoji'' ''Hi!'' 0 1) \<noteq> Some TYPE_MESSAGE
   \<and> type_field (mkReaction 1 ''emoji'' ''Hi!'' 0 1) \<noteq> Some TYPE_TEXT
   \<and> indexOf (spec_normalize (mkReaction 1 ''emoji'' ''Hi!'' 0 1) ''Hi!'')
              (spec_normalize (mkReaction 1 ''emoji'' ''Hi!'' 0 1) ''Hi!'') \<ge> 0
   \<and> reactionMatches rx True ''Hi!'' (mkReaction 1 ''emoji'' ''Hi!'' 0 1) = Inr False
   \<and> reactionMatches rx True ''Hi!'' ((mkReaction 1 ''emoji'' ''Hi!'' 0 1)\<lparr>type_field := None\<rparr>)
       = Inr False
   \<and> reactionMatches rx True ''say HI there'' (mkReaction 1 ''emoji'' ''Hi'' 0 1) = Inr True"
  by code_simp

text \<open>
  C10. When the id of a delete request parses to a positive integer, the handler asks
  the database to delete it and then sends the full list to the requester, also when
  \<open>_data\<close> holds no rule of that id (the list is then the unchanged one). When the id
  is missing, zero, negative or not a number, the handler changes nothing and sends
  nothing. This holds whatever \<open>parseInt\<close> and the database answer; a digit string
  so long that it parses to infinity counts as positive.
\<close>

theorem delete_broadcast_unconditional:
  "(\<forall>n. parseInt data_id = Finite n \<and> n > 0 \<longrightarrow>
      snd (handleApiReactionDelete parseInt deleteIfExists data_id d) =
        [DbDeleteIfExists (Finite n),
         WsSend API_OP_REACTIONS_FETCH
           (objectValues (fst (handleApiReactionDelete parseInt deleteIfExists data_id d)))])
   \<and> (\<forall>n. parseInt data_id = Finite n \<and> n > 0 \<and> lookup d (KInt n) = None \<longrightarrow>
      handleApiReactionDelete parseInt deleteIfExists data_id d =
        (d, [DbDeleteIfExists (Finite n), WsSend API_OP_REACTIONS_FETCH (objectValues d)]))
   \<and> (parseInt data_id = NaN \<or> parseInt data_id = NegInfinity
        \<or> (\<exists>n. parseInt data_id = Finite n \<and> n \<le> 0) \<longrightarrow>
      handleApiReactionDelete parseInt deleteIfExists data_id d = (d, []))
   \<and> (parseInt data_id = PosInfinity \<longrightarrow>
      snd (handleApiReactionDelete parseInt deleteIfExists data_id d) =
        [DbDeleteIfExists PosInfinity,
         WsSend API_OP_REACTIONS_FETCH
           (objectValues (fst (handleApiReactionDelete parseInt deleteIfExists data_id d)))])"
proof -
  have i: "snd (handleApiReactionDelete parseInt deleteIfExists data_id d) =
        [DbDeleteIfExists PosInfinity,
         WsSend API_OP_REACTIONS_FETCH
           (objectValues (fst (handleApiReactionDelete parseInt deleteIfExists data_id d)))]"
    if "parseInt data_id = PosInfinity"
    using that
    by (simp add: handleApiReactionDelete_def parseIntOrNull_def handleApiReactionsFetch_def Let_def)
  have a: "snd (handleApiReactionDelete parseInt deleteIfExists data_id d) =
        [DbDeleteIfExists (Finite n),
         WsSend API_OP_REACTIONS_FETCH
           (objectValues (fst (handleApiReactionDelete parseInt deleteIfExists data_id d)))]"
    if "parseInt data_id = Finite n" and "n > 0" for n
    using that
    by (simp add: handleApiReactionDelete_def parseIntOrNull_def handleApiReactionsFetch_def Let_def)
  have b: "handleApiReactionDelete parseInt deleteIfExists data_id d =
        (d, [DbDeleteIfExists (Finite n), WsSend API_OP_REACTIONS_FETCH (objectValues d)])"
    if "parseInt data_id = Finite n" and "n > 0" and "lookup d (KInt n) = None" for n
    using that
    by (simp add: handleApiReactionDelete_def parseIntOrNull_def handleApiReactionsFetch_def Let_def
          store_delete_absent)
  have c: "handleApiReactionDelete parseInt deleteIfExists data_id d = (d, [])"
    if "parseInt data_id = NaN \<or> parseInt data_id = NegInfinity
        \<or> (\<exists>n. parseInt data_id = Finite n \<and> n \<le> 0)"
    using that by (auto simp: handleApiReactionDelete_def parseIntOrNull_def)
  from a b c i show ?thesis by blast
qed

text \<open>C10 on the ids \<open>"5"\<close> (no such rule), \<open>"-5"\<close> and \<open>undefined\<close>.\<close>

theorem delete_broadcast_unconditional_witness:
  "sampleParseInt (JStr ''5'') = Finite 5
   \<and> handleApiReactionDelete sampleParseInt (\<lambda>n. False) (JStr ''5'')
        [(KInt 3, mkReaction 3 ''text'' ''cat'' 0 0)]
       = ([(KInt 3, mkReaction 3 ''text'' ''cat'' 0 0)],
          [DbDeleteIfExists (Finite 5), WsSend ''reactions_fetch'' [mkReaction 3 ''text'' ''cat'' 0 0]])
   \<and> sampleParseInt (JStr ''-5'') = Finite (- 5)
   \<and> handleApiReactionDelete sampleParseInt (\<lambda>n. True) (JStr ''-5'')
        [(KInt 3, mkReaction 3 ''text'' ''cat'' 0 0)]
       = ([(KInt 3, mkReaction 3 ''text'' ''cat'' 0 0)], [])
   \<and> sampleParseInt JUndefined = NaN
   \<and> handleApiReactionDelete sampleParseInt (\<lambda>n. True) JUndefined
        [(KInt 3, mkReaction 3 ''text'' ''cat'' 0 0)]
       = ([(KInt 3, mkReaction 3 ''text'' ''cat'' 0 0)], [])"
proof -
  have p1: "sampleParseInt (JStr ''5'') = Finite 5" by simp
  have p2: "sampleParseInt (JStr ''-5'') = Finite (- 5)" by simp
  have p3: "sampleParseInt JUndefined = NaN" by simp
  have l: "lookup [(KInt 3, mkReaction 3 ''text'' ''cat'' 0 0)] (KInt 5) = None"
    by (simp add: lookup_def)
  have v: "objectValues [(KInt 3, mkReaction 3 ''text'' ''cat'' 0 0)] = [mkReaction 3 ''text'' ''cat'' 0 0]"
    by (simp add: objectValues_def)
  from delete_broadcast_unconditional [of sampleParseInt "JStr ''5''" "\<lambda>n. False"
         "[(KInt 3, mkReaction 3 ''text'' ''cat'' 0 0)]"] p1 l
  have "handleApiReactionDelete sampleParseInt (\<lambda>n. False) (JStr ''5'')
        [(KInt 3, mkReaction 3 ''text'' ''cat'' 0 0)]
       = ([(KInt 3, mkReaction 3 ''text'' ''cat'' 0 0)],
          [DbDeleteIfExists (Finite 5),
           WsSend API_OP_REACTIONS_FETCH (objectValues [(KInt 3, mkReaction 3 ''text'' ''cat'' 0 0)])])"
    by simp
  with v have a: "handleApiReactionDelete sampleParseInt (\<lambda>n. False) (JStr ''5'')
        [(KInt 3, mkReaction 3 ''text'' ''cat'' 0 0)]
       = ([(KInt 3, mkReaction 3 ''text'' ''cat'' 0 0)],
          [DbDeleteIfExists (Finite 5), WsSend ''reactions_fetch'' [mkReaction 3 ''text'' ''cat'' 0 0]])"
    by (simp add: API_OP_REACTIONS_FETCH_def)
  from delete_broadcast_unconditional [of sampleParseInt "JStr ''-5''" "\<lambda>n. True"
         "[(KInt 3, mkReaction 3 ''text'' ''cat'' 0 0)]"] p2
  have b: "handleApiReactionDelete sampleParseInt (\<lambda>n. True) (JStr ''-5'')
        [(KInt 3, mkReaction 3 ''text'' ''cat'' 0 0)]
       = ([(KInt 3, mkReaction 3 ''text'' ''cat'' 0 0)], [])"
    by simp
  from delete_broadcast_unconditional [of sampleParseInt JUndefined "\<lambda>n. True"
         "[(KInt 3, mkReaction 3 ''text'' ''cat'' 0 0)]"] p3
  have c: "handleApiReactionDelete sampleParseInt (\<lambda>n. True) JUndefined
        [(KInt 3, mkReaction 3 ''text'' ''cat'' 0 0)]
       = ([(KInt 3, mkReaction 3 ''text'' ''cat'' 0 0)], [])"
    by simp
  from p1 p2 p3 a b c show ?thesis by blast
qed

end
